theory Spec2Isabelle
  imports Main
begin

section \<open>Python strings\<close>

text \<open>
  A Python \<open>str\<close> is a sequence of Unicode code points. The embedding covers the code
  points U+0000 to U+00FF: a \<open>char\<close> is the code point with that number, a \<open>string\<close>
  is a \<open>str\<close>. The methods of \<open>str\<close> that \<open>filters.py\<close> calls are written out below as
  CPython defines them on this range.
\<close>

definition isspace_chr :: "char \<Rightarrow> bool" where
  \<comment> \<open>the characters that \<open>str.strip()\<close> and \<open>str.split()\<close> treat as whitespace:
      U+0009 to U+000D, U+001C to U+0020, U+0085 and U+00A0\<close>
  "isspace_chr c =
     (let n = (of_char c :: nat)
      in (9 \<le> n \<and> n \<le> 13) \<or> (28 \<le> n \<and> n \<le> 32) \<or> n = 133 \<or> n = 160)"

definition decimal_chr :: "char \<Rightarrow> bool" where
  \<comment> \<open>the decimal digits (category Nd), the only digits \<open>int()\<close> accepts: \<open>0\<close> to \<open>9\<close>\<close>
  "decimal_chr c = (let n = (of_char c :: nat) in 48 \<le> n \<and> n \<le> 57)"

definition isdigit_chr :: "char \<Rightarrow> bool" where
  \<comment> \<open>\<open>str.isdigit()\<close> on one character: the decimal digits and the superscript digits
      U+00B2, U+00B3 and U+00B9\<close>
  "isdigit_chr c =
     (let n = (of_char c :: nat) in decimal_chr c \<or> n = 178 \<or> n = 179 \<or> n = 185)"

definition upper_chr :: "char \<Rightarrow> string" where
  \<comment> \<open>the full uppercase mapping of one character. U+00DF becomes \<open>SS\<close>. The uppercase of
      U+00B5 and of U+00FF lies beyond U+00FF (U+039C, U+0178) and is the uppercase of no
      other character up to U+00FF: each of the two stands for its own uppercase here.\<close>
  "upper_chr c =
     (let n = (of_char c :: nat)
      in if 97 \<le> n \<and> n \<le> 122 then [char_of (n - 32)]
         else if n = 223 then ''SS''
         else if 224 \<le> n \<and> n \<le> 254 \<and> n \<noteq> 247 then [char_of (n - 32)]
         else [c])"

definition lower_chr :: "char \<Rightarrow> char" where
  "lower_chr c =
     (let n = (of_char c :: nat)
      in if 65 \<le> n \<and> n \<le> 90 then char_of (n + 32)
         else if 192 \<le> n \<and> n \<le> 222 \<and> n \<noteq> 215 then char_of (n + 32)
         else c)"

definition str_upper :: "string \<Rightarrow> string" where
  "str_upper s = concat (map upper_chr s)"

definition str_lower :: "string \<Rightarrow> string" where
  "str_lower s = map lower_chr s"

definition str_isdigit :: "string \<Rightarrow> bool" where
  \<comment> \<open>\<open>s.isdigit()\<close>: all characters are digits and there is at least one\<close>
  "str_isdigit s = (s \<noteq> [] \<and> list_all isdigit_chr s)"

definition strip :: "string \<Rightarrow> string" where
  "strip s = rev (dropWhile isspace_chr (rev (dropWhile isspace_chr s)))"

fun split_acc :: "string \<Rightarrow> string \<Rightarrow> string list" where
  "split_acc w [] = (if w = [] then [] else [w])"
| "split_acc w (c # cs) =
     (if isspace_chr c then (if w = [] then split_acc [] cs else w # split_acc [] cs)
      else split_acc (w @ [c]) cs)"

definition split :: "string \<Rightarrow> string list" where
  \<comment> \<open>\<open>s.split()\<close> without arguments: the maximal runs of non-whitespace characters\<close>
  "split s = split_acc [] s"

definition startswith :: "string \<Rightarrow> string \<Rightarrow> bool" where
  "startswith s pre = (take (length pre) s = pre)"

datatype py_error = ValueError

definition digit_val :: "char \<Rightarrow> int" where
  "digit_val c = int (of_char c) - 48"

definition py_int :: "string \<Rightarrow> py_error + int" where
  \<comment> \<open>\<open>int(p)\<close> for a \<open>p\<close> on which \<open>p.isdigit()\<close> holds (the only call in the source): the
      decimal value when every character is a decimal digit, a \<open>ValueError\<close> otherwise\<close>
  "py_int p =
     (if p \<noteq> [] \<and> list_all decimal_chr p
      then Inr (foldl (\<lambda>acc c. 10 * acc + digit_val c) 0 p)
      else Inl ValueError)"

section \<open>The query parser: \<open>parse_search_query\<close>\<close>

text \<open>
  The function returns a \<open>dict\<close>: the empty one for an empty query, and otherwise one
  with exactly the keys \<open>borough\<close>, \<open>year\<close> and \<open>keywords\<close>, which the loop updates.
\<close>

record parsed_query =
  borough :: "string option"
  year :: "int option"
  keywords_seq :: "string list"

datatype query_dict = Empty_dict | Query_dict parsed_query

definition borough_tokens :: "string list" where
  "borough_tokens =
     [''MANHATTAN'', ''BROOKLYN'', ''QUEENS'', ''BRONX'', ''STATEN'', ''STATEN ISLAND'']"

definition parse_token :: "parsed_query \<Rightarrow> string \<Rightarrow> parsed_query" where
  \<comment> \<open>the body of the loop \<open>for p in parts\<close>\<close>
  "parse_token result p =
     (let up = str_upper p
      in if up \<in> set borough_tokens
         then result\<lparr>borough :=
                Some (if startswith up ''STATEN'' then ''STATEN ISLAND'' else up)\<rparr>
         else if str_isdigit p \<and> length p = 4
         then (case py_int p of
                 Inr n \<Rightarrow> result\<lparr>year := Some n\<rparr>
               | Inl ValueError \<Rightarrow> result)
         else result\<lparr>keywords_seq := keywords_seq result @ [p]\<rparr>)"

definition initial_result :: parsed_query where
  "initial_result = \<lparr>borough = None, year = None, keywords_seq = []\<rparr>"

definition parse_search_query :: "string \<Rightarrow> query_dict" where
  "parse_search_query query =
     (if query = [] then Empty_dict
      else Query_dict (foldl parse_token initial_result (split (strip query))))"

definition well_formed :: "parsed_query \<Rightarrow> bool" where
  \<comment> \<open>what the loop keeps true of \<open>result\<close>: the borough is unset or one of the five
      canonical names, the year is unset or a number of at most four digits\<close>
  "well_formed r \<longleftrightarrow>
     borough r \<in> {None, Some ''MANHATTAN'', Some ''BROOKLYN'', Some ''QUEENS'', Some ''BRONX'',
                  Some ''STATEN ISLAND''} \<and>
     (case year r of None \<Rightarrow> True | Some y \<Rightarrow> 0 \<le> y \<and> y \<le> 9999)"

section \<open>Data frames\<close>

text \<open>
  A cell of a \<open>pandas.DataFrame\<close> holds a string, an integer, or is missing (\<open>NaN\<close>):
  \<open>None\<close> below. A row lists its cells by column name, in a frame whose \<open>columns\<close> are
  the names of its schema; a column that a row does not list is missing in that row. The
  columns that \<open>apply_filters\<close> reads with the \<open>.str\<close> accessor are taken to have the
  \<open>object\<close> dtype.
\<close>

datatype val = Str string | Num int

type_synonym cell = "val option"

type_synonym row = "(string \<times> cell) list"

record dataframe =
  columns :: "string list"
  rows :: "row list"

definition cell_at :: "row \<Rightarrow> string \<Rightarrow> cell" where
  "cell_at r col = (case map_of r col of Some c \<Rightarrow> c | None \<Rightarrow> None)"

definition COL_BOROUGH :: string where "COL_BOROUGH = ''BOROUGH''"
definition COL_YEAR :: string where "COL_YEAR = ''CRASH_YEAR''"
definition COL_MONTH :: string where "COL_MONTH = ''CRASH_MONTH''"
definition COL_HOUR :: string where "COL_HOUR = ''CRASH_HOUR''"
definition COL_COLLISION_ID :: string where "COL_COLLISION_ID = ''COLLISION_ID''"
definition COL_PERSON_INJURY :: string where "COL_PERSON_INJURY = ''PERSON_INJURY''"
definition COL_PERSON_TYPE :: string where "COL_PERSON_TYPE = ''PERSON_TYPE''"
definition COL_VEHICLE_TYPE :: string where "COL_VEHICLE_TYPE = ''VEHICLE_TYPE_CODE_1''"
definition COL_FACTOR :: string where "COL_FACTOR = ''CONTRIBUTING_FACTOR_VEHICLE_1''"

definition select :: "(row \<Rightarrow> bool) \<Rightarrow> dataframe \<Rightarrow> dataframe" where
  \<comment> \<open>\<open>filtered[mask]\<close>: the rows whose mask entry is true, in their order; the mask of a
      row is a function of the row\<close>
  "select msk df = df\<lparr>rows := filter msk (rows df)\<rparr>"

definition isin :: "cell \<Rightarrow> val list \<Rightarrow> bool" where
  \<comment> \<open>\<open>Series.isin(values)\<close> on one cell\<close>
  "isin c vs = (case c of None \<Rightarrow> False | Some v \<Rightarrow> v \<in> set vs)"

definition cell_str_upper :: "cell \<Rightarrow> cell" where
  \<comment> \<open>\<open>Series.str.upper()\<close> on one cell: missing for every cell that is not a string\<close>
  "cell_str_upper c = (case c of Some (Str s) \<Rightarrow> Some (Str (str_upper s)) | _ \<Rightarrow> None)"

function str_of_nat :: "nat \<Rightarrow> string" where
  "str_of_nat n =
     (if n < 10 then [char_of (48 + n)]
      else str_of_nat (n div 10) @ [char_of (48 + n mod 10)])"
  by pat_completeness auto
termination
  by (relation "measure (\<lambda>n. n)") auto

definition astype_str :: "cell \<Rightarrow> string" where
  \<comment> \<open>\<open>Series.astype(str)\<close> on one cell: \<open>str(x)\<close>, and \<open>str(float('nan'))\<close> is \<open>nan\<close>\<close>
  "astype_str c =
     (case c of
        None \<Rightarrow> ''nan''
      | Some (Str s) \<Rightarrow> s
      | Some (Num i) \<Rightarrow> (if i < 0 then ''-'' @ str_of_nat (nat (- i)) else str_of_nat (nat i)))"

fun has_substring :: "string \<Rightarrow> string \<Rightarrow> bool" where
  \<comment> \<open>\<open>has_substring t s\<close>: \<open>t\<close> occurs in \<open>s\<close>\<close>
  "has_substring t [] = (t = [])"
| "has_substring t (c # cs) = (take (length t) (c # cs) = t \<or> has_substring t cs)"

definition regex_special :: "char \<Rightarrow> bool" where
  \<comment> \<open>the characters with a meaning in a regular expression of the \<open>re\<close> module:
      \<open>$ ( ) * + . ? [ \ ] ^ { | }\<close>\<close>
  "regex_special c =
     ((of_char c :: nat) \<in> set [36, 40, 41, 42, 43, 46, 63, 91, 92, 93, 94, 123, 124, 125])"

definition literal_pattern :: "string \<Rightarrow> bool" where
  "literal_pattern text = list_all (\<lambda>c. \<not> regex_special c) text"

datatype filter_error = Regex_pattern

text \<open>
  \<open>Series.str.contains(text, na=False)\<close> compiles \<open>text\<close> as a regular expression
  (\<open>regex=True\<close> is the default) before it looks at any cell. A pattern without special
  characters matches exactly where it occurs as a substring. A pattern with a special
  character either does not compile and raises \<open>re.error\<close> (as \<open>speed(\<close> does) or
  matches as an expression; the embedding does not interpret such a pattern and returns
  \<open>Regex_pattern\<close> for it.
\<close>

definition text_hit :: "string \<Rightarrow> cell \<Rightarrow> bool" where
  \<comment> \<open>one entry of \<open>filtered[col].astype(str).str.lower().str.contains(text, na=False)\<close>
      for a literal \<open>text\<close>\<close>
  "text_hit text c = has_substring text (str_lower (astype_str c))"

fun search_mask ::
  "string list \<Rightarrow> string list \<Rightarrow> string \<Rightarrow> (row \<Rightarrow> bool) \<Rightarrow> filter_error + (row \<Rightarrow> bool)"
where
  \<comment> \<open>the loop \<open>for col in [...]\<close> over the searched columns, from the mask so far\<close>
  "search_mask [] present text msk = Inr msk"
| "search_mask (col # cols) present text msk =
     (if col \<in> set present
      then (if literal_pattern text
            then search_mask cols present text (\<lambda>r. msk r \<and> text_hit text (cell_at r col))
            else Inl Regex_pattern)
      else search_mask cols present text msk)"

section \<open>The filter engine: \<open>apply_filters\<close>\<close>

record filter_args =
  boroughs :: "string list option"
  years :: "val list option"
  months :: "val list option"
  hours :: "val list option"
  injuries :: "val list option"
  person_types :: "val list option"
  vehicle_types :: "val list option"
  factors :: "val list option"
  search_text :: "string option"

definition borough_filter :: "string list option \<Rightarrow> dataframe \<Rightarrow> dataframe" where
  "borough_filter crit filtered =
     (case crit of
        None \<Rightarrow> filtered
      | Some bs \<Rightarrow>
          if bs \<noteq> [] \<and> COL_BOROUGH \<in> set (columns filtered)
          then (let boroughs_up = map str_upper bs
                in select (\<lambda>r. isin (cell_str_upper (cell_at r COL_BOROUGH))
                                    (map Str boroughs_up)) filtered)
          else filtered)"

definition isin_filter :: "string \<Rightarrow> val list option \<Rightarrow> dataframe \<Rightarrow> dataframe" where
  \<comment> \<open>\<open>if values and col in filtered.columns: filtered = filtered[filtered[col].isin(values)]\<close>\<close>
  "isin_filter col crit filtered =
     (case crit of
        None \<Rightarrow> filtered
      | Some vs \<Rightarrow>
          if vs \<noteq> [] \<and> col \<in> set (columns filtered)
          then select (\<lambda>r. isin (cell_at r col) vs) filtered
          else filtered)"

definition searched_columns :: "string list" where
  "searched_columns = [COL_FACTOR, COL_VEHICLE_TYPE, COL_BOROUGH]"

definition search_filter :: "string option \<Rightarrow> dataframe \<Rightarrow> filter_error + dataframe" where
  "search_filter st filtered =
     (case st of
        None \<Rightarrow> Inr filtered
      | Some s \<Rightarrow>
          if s = [] then Inr filtered
          else (let text = str_lower (strip s)
                in if text = [] then Inr filtered
                   else (case search_mask searched_columns (columns filtered) text (\<lambda>r. True) of
                           Inl e \<Rightarrow> Inl e
                         | Inr msk \<Rightarrow> Inr (select msk filtered))))"

definition structured_filters :: "dataframe \<Rightarrow> filter_args \<Rightarrow> dataframe" where
  \<comment> \<open>the eight structured filters, in the order of the source\<close>
  "structured_filters df a =
     isin_filter COL_FACTOR (factors a)
      (isin_filter COL_VEHICLE_TYPE (vehicle_types a)
        (isin_filter COL_PERSON_TYPE (person_types a)
          (isin_filter COL_PERSON_INJURY (injuries a)
            (isin_filter COL_HOUR (hours a)
              (isin_filter COL_MONTH (months a)
                (isin_filter COL_YEAR (years a)
                  (borough_filter (boroughs a) df)))))))"

definition apply_filters :: "dataframe \<Rightarrow> filter_args \<Rightarrow> filter_error + dataframe" where
  "apply_filters df a = search_filter (search_text a) (structured_filters df a)"

definition no_filters :: filter_args where
  \<comment> \<open>the defaults of the keyword arguments: every one \<open>None\<close>\<close>
  "no_filters =
     \<lparr>boroughs = None, years = None, months = None, hours = None, injuries = None,
      person_types = None, vehicle_types = None, factors = None, search_text = None\<rparr>"

section \<open>Aggregation: \<open>summarize\<close>\<close>

text \<open>
  The source files hold the layout that shows the four totals, not the function that
  computes them: \<open>summarize\<close> and its types below follow section 4.3 of the
  specification, with the labels of the injury severities as a parameter.
\<close>

record summary_metrics =
  total_crashes :: nat
  total_persons :: nat
  total_injuries :: nat
  total_fatalities :: nat

record injury_labels =
  no_injury_labels :: "string list"
  fatal_labels :: "string list"

definition collision_ids :: "dataframe \<Rightarrow> val list" where
  \<comment> \<open>Modelled from the spec: the collision identifiers present in the rows, which
      \<open>summarize\<close> counts; a missing identifier is none\<close>
  "collision_ids df = concat (map (\<lambda>r. case cell_at r COL_COLLISION_ID of
                                          None \<Rightarrow> [] | Some v \<Rightarrow> [v]) (rows df))"

definition injury_of :: "row \<Rightarrow> string option" where
  \<comment> \<open>Modelled from the spec: the injury severity of a row, which \<open>summarize\<close>
      classifies\<close>
  "injury_of r = (case cell_at r COL_PERSON_INJURY of Some (Str s) \<Rightarrow> Some s | _ \<Rightarrow> None)"

definition summarize :: "injury_labels \<Rightarrow> dataframe \<Rightarrow> summary_metrics" where
  \<comment> \<open>Modelled from the spec: \<open>summarize\<close>, the aggregation over a filtered data frame, is
      not among the source files. Crashes are the distinct collision identifiers present,
      persons the rows, injuries the rows whose injury severity is outside the configured
      no-injury labels, fatalities the rows whose injury severity is a configured fatal
      label.\<close>
  "summarize cfg df =
     \<lparr>total_crashes = length (remdups (collision_ids df)),
      total_persons = length (rows df),
      total_injuries =
        length (filter (\<lambda>r. case injury_of r of
                               None \<Rightarrow> False
                             | Some s \<Rightarrow> s \<notin> set (no_injury_labels cfg)) (rows df)),
      total_fatalities =
        length (filter (\<lambda>r. case injury_of r of
                               None \<Rightarrow> False
                             | Some s \<Rightarrow> s \<in> set (fatal_labels cfg)) (rows df))\<rparr>"

section \<open>Example data\<close>

definition queens_speed_df :: dataframe where
  \<comment> \<open>five person rows, three of them in Queens, one of these three with a contributing
      factor that mentions speed\<close>
  "queens_speed_df =
     \<lparr>columns = [''COLLISION_ID'', ''BOROUGH'', ''CONTRIBUTING_FACTOR_VEHICLE_1''],
      rows =
        [[(''COLLISION_ID'', Some (Num 101)), (''BOROUGH'', Some (Str ''QUEENS'')),
          (''CONTRIBUTING_FACTOR_VEHICLE_1'', Some (Str ''Unsafe Speed''))],
         [(''COLLISION_ID'', Some (Num 101)), (''BOROUGH'', Some (Str ''QUEENS'')),
          (''CONTRIBUTING_FACTOR_VEHICLE_1'', Some (Str ''Driver Inattention/Distraction''))],
         [(''COLLISION_ID'', Some (Num 102)), (''BOROUGH'', Some (Str ''QUEENS'')),
          (''CONTRIBUTING_FACTOR_VEHICLE_1'', Some (Str ''Unspecified''))],
         [(''COLLISION_ID'', Some (Num 103)), (''BOROUGH'', Some (Str ''BRONX'')),
          (''CONTRIBUTING_FACTOR_VEHICLE_1'', Some (Str ''Following Too Closely''))],
         [(''COLLISION_ID'', Some (Num 104)), (''BOROUGH'', Some (Str ''Brooklyn'')),
          (''CONTRIBUTING_FACTOR_VEHICLE_1'', Some (Str ''Unspecified''))]]\<rparr>"


definition collisions_df :: dataframe where
  \<comment> \<open>three person rows with every column that \<open>apply_filters\<close> reads\<close>
  "collisions_df =
     \<lparr>columns =
        [''COLLISION_ID'', ''CRASH_YEAR'', ''CRASH_MONTH'', ''CRASH_HOUR'', ''BOROUGH'',
         ''PERSON_INJURY'', ''PERSON_TYPE'', ''VEHICLE_TYPE_CODE_1'',
         ''CONTRIBUTING_FACTOR_VEHICLE_1''],
      rows =
        [[(''COLLISION_ID'', Some (Num 11)), (''CRASH_YEAR'', Some (Num 2019)),
          (''CRASH_MONTH'', Some (Num 5)), (''CRASH_HOUR'', Some (Num 17)),
          (''BOROUGH'', Some (Str ''Brooklyn'')), (''PERSON_INJURY'', Some (Str ''Injured'')),
          (''PERSON_TYPE'', Some (Str ''Pedestrian'')),
          (''VEHICLE_TYPE_CODE_1'', Some (Str ''Sedan'')),
          (''CONTRIBUTING_FACTOR_VEHICLE_1'', Some (Str ''Unsafe Speed''))],
         [(''COLLISION_ID'', Some (Num 11)), (''CRASH_YEAR'', Some (Num 2019)),
          (''CRASH_MONTH'', Some (Num 5)), (''CRASH_HOUR'', Some (Num 17)),
          (''BOROUGH'', Some (Str ''BROOKLYN'')), (''PERSON_INJURY'', Some (Str ''Unspecified'')),
          (''PERSON_TYPE'', Some (Str ''Occupant'')),
          (''VEHICLE_TYPE_CODE_1'', Some (Str ''Sedan'')),
          (''CONTRIBUTING_FACTOR_VEHICLE_1'', Some (Str ''Unsafe Speed''))],
         [(''COLLISION_ID'', Some (Num 12)), (''CRASH_YEAR'', Some (Num 2021)),
          (''CRASH_MONTH'', None), (''CRASH_HOUR'', Some (Num 8)),
          (''BOROUGH'', Some (Str ''QUEENS'')), (''PERSON_INJURY'', Some (Str ''Killed'')),
          (''PERSON_TYPE'', Some (Str ''Bicyclist'')),
          (''VEHICLE_TYPE_CODE_1'', Some (Str ''Bike'')),
          (''CONTRIBUTING_FACTOR_VEHICLE_1'', None)]]\<rparr>"

definition ids_only_df :: dataframe where
  \<comment> \<open>a frame without any of the filtered or searched columns\<close>
  "ids_only_df =
     \<lparr>columns = [''COLLISION_ID''],
      rows = [[(''COLLISION_ID'', Some (Num 1))], [(''COLLISION_ID'', Some (Num 2))]]\<rparr>"

definition all_criteria :: filter_args where
  \<comment> \<open>a call that sets every criterion\<close>
  "all_criteria =
     \<lparr>boroughs = Some [''QUEENS''], years = Some [Num 2019], months = Some [Num 5],
      hours = Some [Num 17], injuries = Some [Str ''Injured''],
      person_types = Some [Str ''Pedestrian''], vehicle_types = Some [Str ''Sedan''],
      factors = Some [Str ''Unsafe Speed''], search_text = Some ''speed''\<rparr>"

definition blank_criteria :: filter_args where
  \<comment> \<open>a call whose criteria are all \<open>None\<close>, empty or blank\<close>
  "blank_criteria =
     \<lparr>boroughs = Some [], years = None, months = Some [], hours = None, injuries = Some [],
      person_types = None, vehicle_types = Some [], factors = None,
      search_text = Some ''   ''\<rparr>"


definition person_row :: "int \<Rightarrow> string \<Rightarrow> row" where
  "person_row cid injury =
     [(''COLLISION_ID'', Some (Num cid)), (''PERSON_INJURY'', Some (Str injury))]"

definition ten_person_rows :: dataframe where
  \<comment> \<open>ten person rows of four collisions: two killed, three injured\<close>
  "ten_person_rows =
     \<lparr>columns = [''COLLISION_ID'', ''PERSON_INJURY''],
      rows =
        [person_row 1 ''Killed'', person_row 1 ''Injured'', person_row 1 ''Unspecified'',
         person_row 2 ''Injured'', person_row 2 ''Unspecified'',
         person_row 3 ''Killed'', person_row 3 ''Unspecified'', person_row 3 ''Unspecified'',
         person_row 4 ''Injured'', person_row 4 ''Unspecified'']\<rparr>"

definition nyc_labels :: injury_labels where
  "nyc_labels = \<lparr>no_injury_labels = [''Unspecified''], fatal_labels = [''Killed'']\<rparr>"

definition superscript_token :: string where
  \<comment> \<open>four times U+00B2, superscript two\<close>
  "superscript_token = [CHR 0xB2, CHR 0xB2, CHR 0xB2, CHR 0xB2]"

section \<open>Properties of the query parser\<close>

lemma dropWhile_all_Nil: "(\<forall>x \<in> set (dropWhile P s). P x) \<longleftrightarrow> dropWhile P s = []"
proof
  assume all: "\<forall>x \<in> set (dropWhile P s). P x"
  show "dropWhile P s = []"
  proof (rule ccontr)
    assume ne: "dropWhile P s \<noteq> []"
    then have "\<not> P (hd (dropWhile P s))" by (rule hd_dropWhile)
    moreover from ne have "hd (dropWhile P s) \<in> set (dropWhile P s)" by simp
    ultimately show False using all by blast
  qed
qed (auto dest: set_dropWhileD)

lemma strip_eq_Nil: "strip s = [] \<longleftrightarrow> list_all isspace_chr s"
  by (simp add: strip_def dropWhile_all_Nil list_all_iff)

lemma digit_val_range: "decimal_chr c \<Longrightarrow> 0 \<le> digit_val c \<and> digit_val c \<le> 9"
  by (auto simp: decimal_chr_def digit_val_def Let_def)

lemma decimal_is_digit: "decimal_chr c \<Longrightarrow> isdigit_chr c"
  by (simp add: isdigit_chr_def Let_def)

lemma upper_chr_decimal: "decimal_chr c \<Longrightarrow> upper_chr c = [c]"
  by (auto simp: decimal_chr_def upper_chr_def Let_def)

lemma length4: "length p = 4 \<Longrightarrow> \<exists>a b c d. p = [a, b, c, d]"
  by (auto simp: length_Suc_conv numeral_eq_Suc)

lemma py_int_four:
  "list_all decimal_chr [a, b, c, d] \<Longrightarrow>
   py_int [a, b, c, d] =
     Inr (1000 * digit_val a + 100 * digit_val b + 10 * digit_val c + digit_val d)"
  by (simp add: py_int_def)

lemma py_int_range:
  assumes "py_int p = Inr n" "length p = 4"
  shows "0 \<le> n \<and> n \<le> 9999"
proof -
  from assms(2) obtain a b c d where p: "p = [a, b, c, d]"
    using length4 by blast
  from assms(1) have dec: "list_all decimal_chr p"
    by (simp add: py_int_def split: if_splits)
  with p assms(1) have n: "n = 1000 * digit_val a + 100 * digit_val b + 10 * digit_val c + digit_val d"
    by (simp add: py_int_four)
  from dec p digit_val_range [of a] digit_val_range [of b] digit_val_range [of c]
    digit_val_range [of d]
  show ?thesis unfolding n by simp
qed

lemma py_int_ValueError: "\<not> list_all decimal_chr p \<Longrightarrow> py_int p = Inl ValueError"
  by (simp add: py_int_def)

lemma borough_tokens_long: "t \<in> set borough_tokens \<Longrightarrow> 5 \<le> length t"
  by (auto simp: borough_tokens_def)

lemma decimal_token_no_borough:
  "list_all decimal_chr [a, b, c, d] \<Longrightarrow> str_upper [a, b, c, d] \<notin> set borough_tokens"
  using borough_tokens_long [of "str_upper [a, b, c, d]"]
  by (auto simp: str_upper_def upper_chr_decimal)

lemma parse_token_borough:
  "str_upper p \<in> set borough_tokens \<Longrightarrow>
   parse_token r p =
     r\<lparr>borough := Some (if startswith (str_upper p) ''STATEN'' then ''STATEN ISLAND''
                         else str_upper p)\<rparr>"
  by (simp add: parse_token_def Let_def)

lemma canonical_borough:
  assumes "t \<in> set borough_tokens"
  shows "(if startswith t ''STATEN'' then ''STATEN ISLAND'' else t) \<in>
     {''MANHATTAN'', ''BROOKLYN'', ''QUEENS'', ''BRONX'', ''STATEN ISLAND''}"
proof -
  from assms consider "t = ''MANHATTAN''" | "t = ''BROOKLYN''" | "t = ''QUEENS''"
    | "t = ''BRONX''" | "t = ''STATEN''" | "t = ''STATEN ISLAND''"
    unfolding borough_tokens_def by fastforce
  then show ?thesis
  proof cases
    case 1 then show ?thesis by (simp add: startswith_def)
  next
    case 2 then show ?thesis by (simp add: startswith_def)
  next
    case 3 then show ?thesis by (simp add: startswith_def)
  next
    case 4 then show ?thesis by (simp add: startswith_def)
  next
    case 5 then show ?thesis by (simp add: startswith_def)
  next
    case 6 then show ?thesis by (simp add: startswith_def)
  qed
qed

lemma parse_token_year:
  "list_all decimal_chr [a, b, c, d] \<Longrightarrow>
   parse_token r [a, b, c, d] =
     r\<lparr>year := Some (1000 * digit_val a + 100 * digit_val b + 10 * digit_val c + digit_val d)\<rparr>"
  using decimal_token_no_borough [of a b c d]
  by (simp add: parse_token_def Let_def py_int_four str_isdigit_def decimal_is_digit)

lemma parse_token_dropped:
  "str_upper p \<notin> set borough_tokens \<Longrightarrow> length p = 4 \<Longrightarrow> list_all isdigit_chr p \<Longrightarrow>
   \<not> list_all decimal_chr p \<Longrightarrow> parse_token r p = r"
  by (auto simp: parse_token_def Let_def str_isdigit_def py_int_ValueError)

lemma parse_token_keyword:
  "str_upper p \<notin> set borough_tokens \<Longrightarrow> \<not> (length p = 4 \<and> list_all isdigit_chr p) \<Longrightarrow>
   parse_token r p = r\<lparr>keywords_seq := keywords_seq r @ [p]\<rparr>"
  by (auto simp: parse_token_def Let_def str_isdigit_def)

lemma keywords_parse_token:
  "keywords_seq (parse_token r p) =
     keywords_seq r @ filter (\<lambda>p. str_upper p \<notin> set borough_tokens \<and>
                                   \<not> (length p = 4 \<and> list_all isdigit_chr p)) [p]"
  by (auto simp: parse_token_def Let_def str_isdigit_def split: sum.splits py_error.splits)

lemma keywords_foldl:
  "keywords_seq (foldl parse_token r ps) =
     keywords_seq r @ filter (\<lambda>p. str_upper p \<notin> set borough_tokens \<and>
                                   \<not> (length p = 4 \<and> list_all isdigit_chr p)) ps"
proof (induction ps arbitrary: r)
  case Nil
  then show ?case by simp
next
  case (Cons p ps)
  show ?case
    unfolding foldl_Cons Cons.IH keywords_parse_token by simp
qed

lemma borough_parse_token:
  "borough (parse_token r p) = borough r \<or>
   borough (parse_token r p) \<in>
     Some ` {''MANHATTAN'', ''BROOKLYN'', ''QUEENS'', ''BRONX'', ''STATEN ISLAND''}"
proof (cases "str_upper p \<in> set borough_tokens")
  case True
  then show ?thesis
    using canonical_borough [of "str_upper p"] by (simp add: parse_token_borough)
next
  case False
  then show ?thesis
    by (auto simp: parse_token_def Let_def split: sum.splits py_error.splits)
qed

lemma year_parse_token:
  "year (parse_token r p) = year r \<or>
   (\<exists>y. year (parse_token r p) = Some y \<and> 0 \<le> y \<and> y \<le> 9999)"
  using py_int_range [of p]
  by (auto simp: parse_token_def Let_def split: sum.splits py_error.splits)

lemma well_formed_parse_token: "well_formed r \<Longrightarrow> well_formed (parse_token r p)"
  using borough_parse_token [of r p] year_parse_token [of r p]
  by (auto simp: well_formed_def split: option.splits)

lemma well_formed_foldl: "well_formed r \<Longrightarrow> well_formed (foldl parse_token r ps)"
  by (induction ps arbitrary: r) (simp_all add: well_formed_parse_token)

lemma split_acc_blank: "list_all isspace_chr s \<Longrightarrow> split_acc [] s = []"
  by (induction s) simp_all

lemma split_blank: "list_all isspace_chr s \<Longrightarrow> split (strip s) = []"
  using strip_eq_Nil [of s] by (simp add: split_def)

lemma well_formed_initial: "well_formed initial_result"
  by (simp add: well_formed_def initial_result_def)

lemma keywords_parse:
  "keywords_seq (foldl parse_token initial_result ps) =
     filter (\<lambda>p. str_upper p \<notin> set borough_tokens \<and>
                  \<not> (length p = 4 \<and> list_all isdigit_chr p)) ps"
  by (simp add: keywords_foldl initial_result_def)

lemma split_acc_tokens:
  "list_all (\<lambda>c. \<not> isspace_chr c) w \<Longrightarrow> t \<in> set (split_acc w s) \<Longrightarrow>
   t \<noteq> [] \<and> list_all (\<lambda>c. \<not> isspace_chr c) t"
proof (induction s arbitrary: w)
  case Nil
  then show ?case by (simp split: if_splits)
next
  case (Cons c cs)
  show ?case
  proof (cases "isspace_chr c")
    case True
    with Cons.prems have "t = w \<and> w \<noteq> [] \<or> t \<in> set (split_acc [] cs)"
      by (simp split: if_splits)
    then show ?thesis
    proof
      assume "t = w \<and> w \<noteq> []"
      with Cons.prems(1) show ?thesis by simp
    next
      assume "t \<in> set (split_acc [] cs)"
      with Cons.IH [of "[]"] show ?thesis by simp
    qed
  next
    case False
    with Cons.prems have "t \<in> set (split_acc (w @ [c]) cs)" by simp
    moreover from False Cons.prems(1) have "list_all (\<lambda>c. \<not> isspace_chr c) (w @ [c])"
      by simp
    ultimately show ?thesis using Cons.IH [of "w @ [c]"] by blast
  qed
qed

lemma split_tokens:
  "t \<in> set (split s) \<Longrightarrow> t \<noteq> [] \<and> list_all (\<lambda>c. \<not> isspace_chr c) t"
  using split_acc_tokens [of "[]" t s] by (simp add: split_def)

lemma char_of_neq_blank:
  "(n::nat) < 256 \<Longrightarrow> n \<noteq> 32 \<Longrightarrow> char_of n \<noteq> CHR '' ''"
proof
  assume n: "n < 256" "n \<noteq> 32" and eq: "char_of n = CHR '' ''"
  from eq have "(of_char (char_of n) :: nat) = of_char CHR '' ''" by simp
  with n show False by simp
qed

lemma upper_chr_no_blank: "\<not> isspace_chr c \<Longrightarrow> CHR '' '' \<notin> set (upper_chr c)"
proof -
  assume ns: "\<not> isspace_chr c"
  have c: "c \<noteq> CHR '' ''"
  proof
    assume "c = CHR '' ''"
    then have "isspace_chr c" by (simp add: isspace_chr_def)
    with ns show False by contradiction
  qed
  show ?thesis
    using c by (auto simp: upper_chr_def Let_def char_of_neq_blank [THEN not_sym])
qed

lemma str_upper_no_blank:
  "list_all (\<lambda>c. \<not> isspace_chr c) t \<Longrightarrow> CHR '' '' \<notin> set (str_upper t)"
  by (induction t) (simp_all add: str_upper_def upper_chr_no_blank)

subsection \<open>The documented queries\<close>

text \<open>
  No token of a query is \<open>STATEN ISLAND\<close> once uppercased, since a token holds no
  blank: the last entry of the list of borough tokens never applies.
\<close>

lemma staten_island_is_no_token: "t \<in> set (split s) \<Longrightarrow> str_upper t \<noteq> ''STATEN ISLAND''"
proof
  assume t: "t \<in> set (split s)" and eq: "str_upper t = ''STATEN ISLAND''"
  from t have "list_all (\<lambda>c. \<not> isspace_chr c) t" by (simp add: split_tokens)
  then have "CHR '' '' \<notin> set (str_upper t)" by (rule str_upper_no_blank)
  with eq show False by simp
qed

text \<open>
  C4. The query \<open>staten island 2019\<close> is split at the blank: \<open>staten\<close> sets the borough
  to \<open>STATEN ISLAND\<close>, \<open>island\<close> is no borough token and no year, and goes to the
  keywords, \<open>2019\<close> is the year. The keyword sequence of the result is not empty.
\<close>

theorem parse_staten_island_keeps_island:
  "parse_search_query ''staten island 2019'' =
     Query_dict \<lparr>borough = Some ''STATEN ISLAND'', year = Some 2019,
                 keywords_seq = [''island'']\<rparr>"
  by code_simp

subsection \<open>Totality\<close>

text \<open>
  C6, as the code has it. \<open>parse_search_query\<close> returns for every string. For the empty
  string it returns the empty dict, which has no \<open>borough\<close>, \<open>year\<close> or \<open>keywords\<close> key.
  For every other string it returns a dict with the three keys: the borough unset or one
  of the five canonical names, the year unset or a number from 0 to 9999, the keywords
  tokens of the query. For a string of whitespace only, this dict has the borough and the
  year unset and no keywords.
\<close>

theorem parse_search_query_total:
  "parse_search_query [] = Empty_dict \<and>
   (q \<noteq> [] \<longrightarrow>
      (\<exists>r. parse_search_query q = Query_dict r \<and>
           borough r \<in> {None, Some ''MANHATTAN'', Some ''BROOKLYN'', Some ''QUEENS'',
                         Some ''BRONX'', Some ''STATEN ISLAND''} \<and>
           (\<forall>y. year r = Some y \<longrightarrow> 0 \<le> y \<and> y \<le> 9999) \<and>
           set (keywords_seq r) \<subseteq> set (split (strip q)))) \<and>
   (q \<noteq> [] \<and> list_all isspace_chr q \<longrightarrow>
      parse_search_query q =
        Query_dict \<lparr>borough = None, year = None, keywords_seq = []\<rparr>)"
proof (intro conjI impI)
  show "parse_search_query [] = Empty_dict"
    by (simp add: parse_search_query_def)
next
  assume q: "q \<noteq> []"
  let ?r = "foldl parse_token initial_result (split (strip q))"
  have wf: "well_formed ?r"
    by (rule well_formed_foldl [OF well_formed_initial])
  have "parse_search_query q = Query_dict ?r"
    using q by (simp add: parse_search_query_def)
  moreover from wf have "borough ?r \<in> {None, Some ''MANHATTAN'', Some ''BROOKLYN'',
      Some ''QUEENS'', Some ''BRONX'', Some ''STATEN ISLAND''}"
    unfolding well_formed_def by (rule conjunct1)
  moreover from wf have "\<forall>y. year ?r = Some y \<longrightarrow> 0 \<le> y \<and> y \<le> 9999"
    unfolding well_formed_def by (auto split: option.splits)
  moreover have "set (keywords_seq ?r) \<subseteq> set (split (strip q))"
    by (simp add: keywords_parse)
  ultimately show "\<exists>r. parse_search_query q = Query_dict r \<and>
           borough r \<in> {None, Some ''MANHATTAN'', Some ''BROOKLYN'', Some ''QUEENS'',
                         Some ''BRONX'', Some ''STATEN ISLAND''} \<and>
           (\<forall>y. year r = Some y \<longrightarrow> 0 \<le> y \<and> y \<le> 9999) \<and>
           set (keywords_seq r) \<subseteq> set (split (strip q))"
    by blast
next
  assume "q \<noteq> [] \<and> list_all isspace_chr q"
  then show "parse_search_query q =
        Query_dict \<lparr>borough = None, year = None, keywords_seq = []\<rparr>"
    by (simp add: parse_search_query_def split_blank initial_result_def)
qed

text \<open>
  The theorem at the query of three blanks, and at the query that the layout shows
  as an example.
\<close>

theorem parse_search_query_total_witness:
  "(''   '' \<noteq> [] \<and> list_all isspace_chr ''   '') \<and>
   parse_search_query ''   '' =
     Query_dict \<lparr>borough = None, year = None, keywords_seq = []\<rparr> \<and>
   ''Brooklyn 2022 pedestrian crashes killed'' \<noteq> [] \<and>
   (\<exists>r. parse_search_query ''Brooklyn 2022 pedestrian crashes killed'' = Query_dict r \<and>
        borough r \<in> {None, Some ''MANHATTAN'', Some ''BROOKLYN'', Some ''QUEENS'',
                      Some ''BRONX'', Some ''STATEN ISLAND''} \<and>
        (\<forall>y. year r = Some y \<longrightarrow> 0 \<le> y \<and> y \<le> 9999) \<and>
        set (keywords_seq r) \<subseteq>
          set (split (strip ''Brooklyn 2022 pedestrian crashes killed'')))"
proof -
  have h1: "''   '' \<noteq> [] \<and> list_all isspace_chr ''   ''"
    by code_simp
  have h2: "''Brooklyn 2022 pedestrian crashes killed'' \<noteq> []"
    by simp
  from parse_search_query_total [of "''   ''"]
    parse_search_query_total [of "''Brooklyn 2022 pedestrian crashes killed''"] h1 h2
  show ?thesis by blast
qed

text \<open>
  C6, as the specification has it, fails: the empty string and a string of blanks do not
  yield the same value. The first yields the dict without keys, the second the dict with
  the three keys.
\<close>

theorem parse_empty_differs_from_blank:
  "parse_search_query '''' = Empty_dict \<and>
   parse_search_query ''   '' =
     Query_dict \<lparr>borough = None, year = None, keywords_seq = []\<rparr> \<and>
   parse_search_query '''' \<noteq> parse_search_query ''   ''"
  by code_simp

subsection \<open>The classes of tokens\<close>

text \<open>
  C7, as the code has it. A token of four decimal digits sets the year to its decimal
  value. A token that is no borough token, has four characters that all pass
  \<open>str.isdigit()\<close>, and is not made of decimal digits only leaves the result as it is:
  it is neither the year nor a keyword. Every other token that is no borough token is
  appended to the keywords as it is written. The keywords of a query are therefore its
  tokens, in their order, without the borough tokens and without the tokens of four
  \<open>str.isdigit()\<close> characters.
\<close>

theorem non_borough_token_classes:
  "(list_all decimal_chr [a, b, c, d] \<longrightarrow>
      parse_token r [a, b, c, d] =
        r\<lparr>year := Some (1000 * digit_val a + 100 * digit_val b + 10 * digit_val c
                         + digit_val d)\<rparr>) \<and>
   (str_upper p \<notin> set borough_tokens \<and> length p = 4 \<and> list_all isdigit_chr p \<and>
    \<not> list_all decimal_chr p \<longrightarrow> parse_token r p = r) \<and>
   (str_upper p \<notin> set borough_tokens \<and> \<not> (length p = 4 \<and> list_all isdigit_chr p) \<longrightarrow>
      parse_token r p = r\<lparr>keywords_seq := keywords_seq r @ [p]\<rparr>) \<and>
   (q \<noteq> [] \<longrightarrow>
      (\<exists>res. parse_search_query q = Query_dict res \<and>
             keywords_seq res =
               filter (\<lambda>p. str_upper p \<notin> set borough_tokens \<and>
                            \<not> (length p = 4 \<and> list_all isdigit_chr p))
                 (split (strip q))))"
proof (intro conjI impI)
  assume "list_all decimal_chr [a, b, c, d]"
  then show "parse_token r [a, b, c, d] =
        r\<lparr>year := Some (1000 * digit_val a + 100 * digit_val b + 10 * digit_val c
                         + digit_val d)\<rparr>"
    by (rule parse_token_year)
next
  assume "str_upper p \<notin> set borough_tokens \<and> length p = 4 \<and> list_all isdigit_chr p \<and>
    \<not> list_all decimal_chr p"
  then show "parse_token r p = r"
    by (simp add: parse_token_dropped)
next
  assume "str_upper p \<notin> set borough_tokens \<and> \<not> (length p = 4 \<and> list_all isdigit_chr p)"
  then show "parse_token r p = r\<lparr>keywords_seq := keywords_seq r @ [p]\<rparr>"
    by (intro parse_token_keyword) blast+
next
  assume "q \<noteq> []"
  then have "parse_search_query q =
      Query_dict (foldl parse_token initial_result (split (strip q)))"
    by (simp add: parse_search_query_def)
  then show "\<exists>res. parse_search_query q = Query_dict res \<and>
             keywords_seq res =
               filter (\<lambda>p. str_upper p \<notin> set borough_tokens \<and>
                            \<not> (length p = 4 \<and> list_all isdigit_chr p))
                 (split (strip q))"
    using keywords_parse by blast
qed

text \<open>
  The theorem at the tokens \<open>2019\<close>, four times superscript two, and \<open>speed\<close>, and at
  the query \<open>Brooklyn 2022 pedestrian crashes killed\<close>.
\<close>

theorem non_borough_token_classes_witness:
  "list_all decimal_chr ''2019'' \<and>
   parse_token initial_result ''2019'' = initial_result\<lparr>year := Some 2019\<rparr> \<and>
   (str_upper superscript_token \<notin> set borough_tokens \<and> length superscript_token = 4 \<and>
    list_all isdigit_chr superscript_token \<and> \<not> list_all decimal_chr superscript_token) \<and>
   parse_token initial_result superscript_token = initial_result \<and>
   (str_upper ''speed'' \<notin> set borough_tokens \<and>
    \<not> (length ''speed'' = 4 \<and> list_all isdigit_chr ''speed'')) \<and>
   parse_token initial_result ''speed'' =
     initial_result\<lparr>keywords_seq := keywords_seq initial_result @ [''speed'']\<rparr> \<and>
   ''Brooklyn 2022 pedestrian crashes killed'' \<noteq> [] \<and>
   (\<exists>res. parse_search_query ''Brooklyn 2022 pedestrian crashes killed'' = Query_dict res \<and>
          keywords_seq res = [''pedestrian'', ''crashes'', ''killed''])"
proof -
  have h1: "list_all decimal_chr ''2019''"
    by code_simp
  have v: "1000 * digit_val CHR ''2'' + 100 * digit_val CHR ''0'' + 10 * digit_val CHR ''1''
      + digit_val CHR ''9'' = 2019"
    by code_simp
  have h2: "str_upper superscript_token \<notin> set borough_tokens \<and> length superscript_token = 4 \<and>
    list_all isdigit_chr superscript_token \<and> \<not> list_all decimal_chr superscript_token"
    by code_simp
  have h3: "str_upper ''speed'' \<notin> set borough_tokens \<and>
    \<not> (length ''speed'' = 4 \<and> list_all isdigit_chr ''speed'')"
    by code_simp
  have h4: "''Brooklyn 2022 pedestrian crashes killed'' \<noteq> []"
    by simp
  have k: "filter (\<lambda>p. str_upper p \<notin> set borough_tokens \<and>
                       \<not> (length p = 4 \<and> list_all isdigit_chr p))
             (split (strip ''Brooklyn 2022 pedestrian crashes killed'')) =
           [''pedestrian'', ''crashes'', ''killed'']"
    by code_simp
  note c1 = non_borough_token_classes
    [of "CHR ''2''" "CHR ''0''" "CHR ''1''" "CHR ''9''" initial_result superscript_token
      "''Brooklyn 2022 pedestrian crashes killed''"]
  note c2 = non_borough_token_classes
    [of "CHR ''2''" "CHR ''0''" "CHR ''1''" "CHR ''9''" initial_result "''speed''"
      "''Brooklyn 2022 pedestrian crashes killed''"]
  from c1 h1 v have y: "parse_token initial_result ''2019'' = initial_result\<lparr>year := Some 2019\<rparr>"
    by simp
  from c1 h2 have dr: "parse_token initial_result superscript_token = initial_result"
    by blast
  from c2 h3 have kw: "parse_token initial_result ''speed'' =
     initial_result\<lparr>keywords_seq := keywords_seq initial_result @ [''speed'']\<rparr>"
    by blast
  from c1 h4 k have q: "\<exists>res. parse_search_query ''Brooklyn 2022 pedestrian crashes killed''
      = Query_dict res \<and> keywords_seq res = [''pedestrian'', ''crashes'', ''killed'']"
    by simp
  from h1 y h2 dr h3 kw h4 q show ?thesis by blast
qed

text \<open>
  C7, as the specification has it, fails: the token of four superscript twos is no
  borough token and does not consist of four decimal digits, and the parser neither
  appends it to the keywords nor makes it the year.
\<close>

theorem superscript_token_is_dropped:
  "str_upper superscript_token \<notin> set borough_tokens \<and>
   \<not> list_all decimal_chr superscript_token \<and>
   parse_search_query superscript_token =
     Query_dict \<lparr>borough = None, year = None, keywords_seq = []\<rparr>"
  by code_simp

section \<open>Properties of the filter engine\<close>

lemma columns_select: "columns (select m df) = columns df"
  by (simp add: select_def)


lemma columns_borough_filter: "columns (borough_filter c df) = columns df"
  by (simp add: borough_filter_def columns_select split: option.splits)

lemma columns_isin_filter: "columns (isin_filter col c df) = columns df"
  by (simp add: isin_filter_def columns_select split: option.splits)

lemma columns_structured_filters: "columns (structured_filters df a) = columns df"
  by (simp add: structured_filters_def columns_isin_filter columns_borough_filter)

lemmas columns_filters = columns_isin_filter columns_borough_filter

lemma isin_filter_falsy: "isin_filter col None df = df" "isin_filter col (Some []) df = df"
  by (simp_all add: isin_filter_def)

lemma borough_filter_falsy: "borough_filter None df = df" "borough_filter (Some []) df = df"
  by (simp_all add: borough_filter_def)

lemma isin_filter_absent: "col \<notin> set (columns df) \<Longrightarrow> isin_filter col c df = df"
  by (simp add: isin_filter_def split: option.splits)

lemma borough_filter_absent: "COL_BOROUGH \<notin> set (columns df) \<Longrightarrow> borough_filter c df = df"
  by (simp add: borough_filter_def split: option.splits)

lemma select_True: "select (\<lambda>r. True) df = df"
  by (simp add: select_def)




text \<open>\<open>has_substring t s\<close> holds exactly when \<open>t\<close> occurs in \<open>s\<close>.\<close>

lemma take_eq_prefix: "take (length t) s = t \<longleftrightarrow> (\<exists>ss. s = t @ ss)"
  by (metis append_eq_conv_conj append_take_drop_id)

lemma has_substring_iff: "has_substring t s \<longleftrightarrow> (\<exists>ps ss. s = ps @ t @ ss)"
proof (induction s)
  case Nil
  then show ?case by simp
next
  case (Cons c cs)
  have "(\<exists>ps ss. c # cs = ps @ t @ ss) \<longleftrightarrow>
        (\<exists>ss. c # cs = t @ ss) \<or> (\<exists>ps ss. cs = ps @ t @ ss)"
  proof
    assume "\<exists>ps ss. c # cs = ps @ t @ ss"
    then obtain ps ss where eq: "c # cs = ps @ t @ ss" by blast
    show "(\<exists>ss. c # cs = t @ ss) \<or> (\<exists>ps ss. cs = ps @ t @ ss)"
    proof (cases ps)
      case Nil
      with eq show ?thesis by auto
    next
      case (Cons p ps')
      with eq have "cs = ps' @ t @ ss" by simp
      then show ?thesis by blast
    qed
  next
    assume "(\<exists>ss. c # cs = t @ ss) \<or> (\<exists>ps ss. cs = ps @ t @ ss)"
    then show "\<exists>ps ss. c # cs = ps @ t @ ss"
    proof
      assume "\<exists>ss. c # cs = t @ ss"
      then obtain ss where "c # cs = [] @ t @ ss" by auto
      then show ?thesis by blast
    next
      assume "\<exists>ps ss. cs = ps @ t @ ss"
      then obtain ps ss where "c # cs = (c # ps) @ t @ ss" by auto
      then show ?thesis by blast
    qed
  qed
  with Cons.IH show ?case
    by (simp only: has_substring.simps take_eq_prefix)
qed

lemma search_mask_literal:
  "literal_pattern text \<Longrightarrow>
   search_mask cols present text m =
     Inr (\<lambda>r. m r \<and> (\<forall>col \<in> set cols \<inter> set present. text_hit text (cell_at r col)))"
  by (induction cols arbitrary: m) (auto simp: fun_eq_iff)

lemma search_mask_removeAll:
  "col \<notin> set present \<Longrightarrow>
   search_mask cols present text m = search_mask (removeAll col cols) present text m"
  by (induction cols arbitrary: m) auto

lemma search_mask_none_present:
  "set cols \<inter> set present = {} \<Longrightarrow> search_mask cols present text m = Inr m"
  by (induction cols arbitrary: m) auto

lemma search_mask_Inl:
  "search_mask cols present text m = Inl e \<Longrightarrow> \<not> literal_pattern text"
  by (auto simp: search_mask_literal)

lemma search_filter_None: "search_filter None df = Inr df"
  by (simp add: search_filter_def)

lemma search_filter_blank: "list_all isspace_chr s \<Longrightarrow> search_filter (Some s) df = Inr df"
  using strip_eq_Nil [of s] by (simp add: search_filter_def str_lower_def)



lemma apply_filters_no_searched_column:
  "set searched_columns \<inter> set (columns df) = {} \<Longrightarrow>
   apply_filters df a = Inr (structured_filters df a)"
  by (auto simp: apply_filters_def search_filter_def Let_def search_mask_none_present
      columns_structured_filters select_True split: option.splits)

subsection \<open>Absent and empty criteria\<close>

lemma isin_filter_falsy_in: "c \<in> {None, Some []} \<Longrightarrow> isin_filter col c df = df"
  by (auto simp: isin_filter_falsy)

lemma borough_filter_falsy_in: "c \<in> {None, Some []} \<Longrightarrow> borough_filter c df = df"
  by (auto simp: borough_filter_falsy)

lemma apply_filters_all_falsy:
  assumes "boroughs a \<in> {None, Some []}" "years a \<in> {None, Some []}"
    "months a \<in> {None, Some []}" "hours a \<in> {None, Some []}"
    "injuries a \<in> {None, Some []}" "person_types a \<in> {None, Some []}"
    "vehicle_types a \<in> {None, Some []}" "factors a \<in> {None, Some []}"
    "\<forall>t. search_text a = Some t \<longrightarrow> list_all isspace_chr t"
  shows "apply_filters df a = Inr df"
proof -
  have "structured_filters df a = df"
    unfolding structured_filters_def
    by (simp only: isin_filter_falsy_in assms borough_filter_falsy_in)
  moreover have "search_filter (search_text a) df = Inr df"
    using assms(9) by (cases "search_text a") (simp_all add: search_filter_None search_filter_blank)
  ultimately show ?thesis by (simp add: apply_filters_def)
qed

lemma blank_search_text:
  "list_all isspace_chr s \<Longrightarrow>
   apply_filters df (a\<lparr>search_text := Some s\<rparr>) = apply_filters df (a\<lparr>search_text := None\<rparr>)"
  by (simp add: apply_filters_def structured_filters_def search_filter_blank search_filter_None)

text \<open>
  C10. An empty list is ignored like \<open>None\<close> by each of the eight structured filters,
  and a search text that is empty or made of whitespace only is ignored like \<open>None\<close>;
  when every criterion is \<open>None\<close>, empty or blank, \<open>apply_filters\<close> returns the frame
  it was given: the same columns and the same rows in the same order.
\<close>

theorem empty_criteria_are_noops:
  "apply_filters df (a\<lparr>boroughs := Some []\<rparr>) = apply_filters df (a\<lparr>boroughs := None\<rparr>) \<and>
   apply_filters df (a\<lparr>years := Some []\<rparr>) = apply_filters df (a\<lparr>years := None\<rparr>) \<and>
   apply_filters df (a\<lparr>months := Some []\<rparr>) = apply_filters df (a\<lparr>months := None\<rparr>) \<and>
   apply_filters df (a\<lparr>hours := Some []\<rparr>) = apply_filters df (a\<lparr>hours := None\<rparr>) \<and>
   apply_filters df (a\<lparr>injuries := Some []\<rparr>) = apply_filters df (a\<lparr>injuries := None\<rparr>) \<and>
   apply_filters df (a\<lparr>person_types := Some []\<rparr>) =
     apply_filters df (a\<lparr>person_types := None\<rparr>) \<and>
   apply_filters df (a\<lparr>vehicle_types := Some []\<rparr>) =
     apply_filters df (a\<lparr>vehicle_types := None\<rparr>) \<and>
   apply_filters df (a\<lparr>factors := Some []\<rparr>) = apply_filters df (a\<lparr>factors := None\<rparr>) \<and>
   (list_all isspace_chr s \<longrightarrow>
      apply_filters df (a\<lparr>search_text := Some s\<rparr>) =
        apply_filters df (a\<lparr>search_text := None\<rparr>)) \<and>
   (boroughs a \<in> {None, Some []} \<and> years a \<in> {None, Some []} \<and>
    months a \<in> {None, Some []} \<and> hours a \<in> {None, Some []} \<and>
    injuries a \<in> {None, Some []} \<and> person_types a \<in> {None, Some []} \<and>
    vehicle_types a \<in> {None, Some []} \<and> factors a \<in> {None, Some []} \<and>
    (\<forall>t. search_text a = Some t \<longrightarrow> list_all isspace_chr t) \<longrightarrow>
      apply_filters df a = Inr df)"
proof (intro conjI impI)
  show "apply_filters df (a\<lparr>boroughs := Some []\<rparr>) = apply_filters df (a\<lparr>boroughs := None\<rparr>)"
    by (simp add: apply_filters_def structured_filters_def borough_filter_falsy)
  show "apply_filters df (a\<lparr>years := Some []\<rparr>) = apply_filters df (a\<lparr>years := None\<rparr>)"
    by (simp add: apply_filters_def structured_filters_def isin_filter_falsy)
  show "apply_filters df (a\<lparr>months := Some []\<rparr>) = apply_filters df (a\<lparr>months := None\<rparr>)"
    by (simp add: apply_filters_def structured_filters_def isin_filter_falsy)
  show "apply_filters df (a\<lparr>hours := Some []\<rparr>) = apply_filters df (a\<lparr>hours := None\<rparr>)"
    by (simp add: apply_filters_def structured_filters_def isin_filter_falsy)
  show "apply_filters df (a\<lparr>injuries := Some []\<rparr>) = apply_filters df (a\<lparr>injuries := None\<rparr>)"
    by (simp add: apply_filters_def structured_filters_def isin_filter_falsy)
  show "apply_filters df (a\<lparr>person_types := Some []\<rparr>) =
        apply_filters df (a\<lparr>person_types := None\<rparr>)"
    by (simp add: apply_filters_def structured_filters_def isin_filter_falsy)
  show "apply_filters df (a\<lparr>vehicle_types := Some []\<rparr>) =
        apply_filters df (a\<lparr>vehicle_types := None\<rparr>)"
    by (simp add: apply_filters_def structured_filters_def isin_filter_falsy)
  show "apply_filters df (a\<lparr>factors := Some []\<rparr>) = apply_filters df (a\<lparr>factors := None\<rparr>)"
    by (simp add: apply_filters_def structured_filters_def isin_filter_falsy)
next
  assume "list_all isspace_chr s"
  then show "apply_filters df (a\<lparr>search_text := Some s\<rparr>) =
             apply_filters df (a\<lparr>search_text := None\<rparr>)"
    by (rule blank_search_text)
next
  assume "boroughs a \<in> {None, Some []} \<and> years a \<in> {None, Some []} \<and>
    months a \<in> {None, Some []} \<and> hours a \<in> {None, Some []} \<and>
    injuries a \<in> {None, Some []} \<and> person_types a \<in> {None, Some []} \<and>
    vehicle_types a \<in> {None, Some []} \<and> factors a \<in> {None, Some []} \<and>
    (\<forall>t. search_text a = Some t \<longrightarrow> list_all isspace_chr t)"
  then show "apply_filters df a = Inr df"
    by (intro apply_filters_all_falsy) blast+
qed

text \<open>The theorem at a frame of three rows, with empty lists and a search text of blanks.\<close>

theorem empty_criteria_are_noops_witness:
  "list_all isspace_chr ''   '' \<and>
   apply_filters collisions_df (all_criteria\<lparr>search_text := Some ''   ''\<rparr>) =
     apply_filters collisions_df (all_criteria\<lparr>search_text := None\<rparr>) \<and>
   (boroughs blank_criteria \<in> {None, Some []} \<and> years blank_criteria \<in> {None, Some []} \<and>
    months blank_criteria \<in> {None, Some []} \<and> hours blank_criteria \<in> {None, Some []} \<and>
    injuries blank_criteria \<in> {None, Some []} \<and>
    person_types blank_criteria \<in> {None, Some []} \<and>
    vehicle_types blank_criteria \<in> {None, Some []} \<and>
    factors blank_criteria \<in> {None, Some []} \<and>
    search_text blank_criteria = Some ''   '') \<and>
   apply_filters collisions_df blank_criteria = Inr collisions_df"
proof -
  have h1: "list_all isspace_chr ''   ''"
    by code_simp
  have h2: "boroughs blank_criteria \<in> {None, Some []} \<and>
    years blank_criteria \<in> {None, Some []} \<and>
    months blank_criteria \<in> {None, Some []} \<and> hours blank_criteria \<in> {None, Some []} \<and>
    injuries blank_criteria \<in> {None, Some []} \<and>
    person_types blank_criteria \<in> {None, Some []} \<and>
    vehicle_types blank_criteria \<in> {None, Some []} \<and>
    factors blank_criteria \<in> {None, Some []}"
    by (simp add: blank_criteria_def)
  have h3: "\<forall>t. search_text blank_criteria = Some t \<longrightarrow> list_all isspace_chr t"
    using h1 by (simp add: blank_criteria_def)
  from empty_criteria_are_noops [of collisions_df all_criteria "''   ''"] h1
  have c1: "apply_filters collisions_df (all_criteria\<lparr>search_text := Some ''   ''\<rparr>) =
     apply_filters collisions_df (all_criteria\<lparr>search_text := None\<rparr>)"
    by blast
  from empty_criteria_are_noops [of collisions_df blank_criteria "''   ''"] h2 h3
  have c2: "apply_filters collisions_df blank_criteria = Inr collisions_df"
    by blast
  have h4: "search_text blank_criteria = Some ''   ''"
    by (simp add: blank_criteria_def)
  from h1 h2 h4 c1 c2 show ?thesis by blast
qed

subsection \<open>Columns that the frame does not have\<close>

lemma absent_borough:
  "COL_BOROUGH \<notin> set (columns df) \<Longrightarrow>
   apply_filters df (a\<lparr>boroughs := b\<rparr>) = apply_filters df (a\<lparr>boroughs := None\<rparr>)"
  by (simp add: apply_filters_def structured_filters_def borough_filter_absent)

lemma absent_years:
  "COL_YEAR \<notin> set (columns df) \<Longrightarrow>
   apply_filters df (a\<lparr>years := c\<rparr>) = apply_filters df (a\<lparr>years := None\<rparr>)"
  by (simp add: apply_filters_def structured_filters_def
      isin_filter_absent columns_filters)

lemma absent_months:
  "COL_MONTH \<notin> set (columns df) \<Longrightarrow>
   apply_filters df (a\<lparr>months := c\<rparr>) = apply_filters df (a\<lparr>months := None\<rparr>)"
  by (simp add: apply_filters_def structured_filters_def
      isin_filter_absent columns_filters)

lemma absent_hours:
  "COL_HOUR \<notin> set (columns df) \<Longrightarrow>
   apply_filters df (a\<lparr>hours := c\<rparr>) = apply_filters df (a\<lparr>hours := None\<rparr>)"
  by (simp add: apply_filters_def structured_filters_def
      isin_filter_absent columns_filters)

lemma absent_injuries:
  "COL_PERSON_INJURY \<notin> set (columns df) \<Longrightarrow>
   apply_filters df (a\<lparr>injuries := c\<rparr>) = apply_filters df (a\<lparr>injuries := None\<rparr>)"
  by (simp add: apply_filters_def structured_filters_def
      isin_filter_absent columns_filters)

lemma absent_person_types:
  "COL_PERSON_TYPE \<notin> set (columns df) \<Longrightarrow>
   apply_filters df (a\<lparr>person_types := c\<rparr>) = apply_filters df (a\<lparr>person_types := None\<rparr>)"
  by (simp add: apply_filters_def structured_filters_def
      isin_filter_absent columns_filters)

lemma absent_vehicle_types:
  "COL_VEHICLE_TYPE \<notin> set (columns df) \<Longrightarrow>
   apply_filters df (a\<lparr>vehicle_types := c\<rparr>) = apply_filters df (a\<lparr>vehicle_types := None\<rparr>)"
  by (simp add: apply_filters_def structured_filters_def
      isin_filter_absent columns_filters)

lemma absent_factors:
  "COL_FACTOR \<notin> set (columns df) \<Longrightarrow>
   apply_filters df (a\<lparr>factors := c\<rparr>) = apply_filters df (a\<lparr>factors := None\<rparr>)"
  by (simp add: apply_filters_def structured_filters_def
      isin_filter_absent columns_filters)

text \<open>
  C9. A criterion on a column that is not among the columns of the frame is ignored: for
  each of the eight structured criteria, \<open>apply_filters\<close> returns what it returns with
  that criterion \<open>None\<close>. The loop of the free-text search skips a searched column that
  the frame does not have, as if the column were not in the list of searched columns; and
  when the frame has none of the searched columns, the search keeps every row and
  \<open>apply_filters\<close> returns the result of the structured filters, whatever the text.
\<close>

theorem absent_column_is_noop:
  "(COL_BOROUGH \<notin> set (columns df) \<longrightarrow>
      apply_filters df (a\<lparr>boroughs := b\<rparr>) = apply_filters df (a\<lparr>boroughs := None\<rparr>)) \<and>
   (COL_YEAR \<notin> set (columns df) \<longrightarrow>
      apply_filters df (a\<lparr>years := c\<rparr>) = apply_filters df (a\<lparr>years := None\<rparr>)) \<and>
   (COL_MONTH \<notin> set (columns df) \<longrightarrow>
      apply_filters df (a\<lparr>months := c\<rparr>) = apply_filters df (a\<lparr>months := None\<rparr>)) \<and>
   (COL_HOUR \<notin> set (columns df) \<longrightarrow>
      apply_filters df (a\<lparr>hours := c\<rparr>) = apply_filters df (a\<lparr>hours := None\<rparr>)) \<and>
   (COL_PERSON_INJURY \<notin> set (columns df) \<longrightarrow>
      apply_filters df (a\<lparr>injuries := c\<rparr>) = apply_filters df (a\<lparr>injuries := None\<rparr>)) \<and>
   (COL_PERSON_TYPE \<notin> set (columns df) \<longrightarrow>
      apply_filters df (a\<lparr>person_types := c\<rparr>) = apply_filters df (a\<lparr>person_types := None\<rparr>)) \<and>
   (COL_VEHICLE_TYPE \<notin> set (columns df) \<longrightarrow>
      apply_filters df (a\<lparr>vehicle_types := c\<rparr>) = apply_filters df (a\<lparr>vehicle_types := None\<rparr>)) \<and>
   (COL_FACTOR \<notin> set (columns df) \<longrightarrow>
      apply_filters df (a\<lparr>factors := c\<rparr>) = apply_filters df (a\<lparr>factors := None\<rparr>)) \<and>
   (col \<notin> set (columns df) \<longrightarrow>
      search_mask cols (columns df) pat m =
        search_mask (removeAll col cols) (columns df) pat m) \<and>
   (set searched_columns \<inter> set (columns df) = {} \<longrightarrow>
      apply_filters df a = Inr (structured_filters df a))"
  by (intro conjI impI absent_borough absent_years absent_months absent_hours
      absent_injuries absent_person_types absent_vehicle_types absent_factors
      search_mask_removeAll apply_filters_no_searched_column)

text \<open>
  The theorem at a frame that has the column \<open>COLLISION_ID\<close> only, with every criterion
  set.
\<close>

theorem absent_column_is_noop_witness:
  "(COL_BOROUGH \<notin> set (columns ids_only_df) \<and> COL_YEAR \<notin> set (columns ids_only_df) \<and>
    COL_MONTH \<notin> set (columns ids_only_df) \<and> COL_HOUR \<notin> set (columns ids_only_df) \<and>
    COL_PERSON_INJURY \<notin> set (columns ids_only_df) \<and>
    COL_PERSON_TYPE \<notin> set (columns ids_only_df) \<and>
    COL_VEHICLE_TYPE \<notin> set (columns ids_only_df) \<and>
    COL_FACTOR \<notin> set (columns ids_only_df) \<and>
    set searched_columns \<inter> set (columns ids_only_df) = {}) \<and>
   apply_filters ids_only_df (all_criteria\<lparr>boroughs := Some [''BRONX'']\<rparr>) =
     apply_filters ids_only_df (all_criteria\<lparr>boroughs := None\<rparr>) \<and>
   apply_filters ids_only_df (all_criteria\<lparr>years := Some [Num 2020]\<rparr>) =
     apply_filters ids_only_df (all_criteria\<lparr>years := None\<rparr>) \<and>
   apply_filters ids_only_df (all_criteria\<lparr>months := Some [Num 2020]\<rparr>) =
     apply_filters ids_only_df (all_criteria\<lparr>months := None\<rparr>) \<and>
   apply_filters ids_only_df (all_criteria\<lparr>hours := Some [Num 2020]\<rparr>) =
     apply_filters ids_only_df (all_criteria\<lparr>hours := None\<rparr>) \<and>
   apply_filters ids_only_df (all_criteria\<lparr>injuries := Some [Num 2020]\<rparr>) =
     apply_filters ids_only_df (all_criteria\<lparr>injuries := None\<rparr>) \<and>
   apply_filters ids_only_df (all_criteria\<lparr>person_types := Some [Num 2020]\<rparr>) =
     apply_filters ids_only_df (all_criteria\<lparr>person_types := None\<rparr>) \<and>
   apply_filters ids_only_df (all_criteria\<lparr>vehicle_types := Some [Num 2020]\<rparr>) =
     apply_filters ids_only_df (all_criteria\<lparr>vehicle_types := None\<rparr>) \<and>
   apply_filters ids_only_df (all_criteria\<lparr>factors := Some [Num 2020]\<rparr>) =
     apply_filters ids_only_df (all_criteria\<lparr>factors := None\<rparr>) \<and>
   search_mask searched_columns (columns ids_only_df) ''speed'' (\<lambda>r. True) =
     search_mask (removeAll COL_FACTOR searched_columns) (columns ids_only_df) ''speed''
       (\<lambda>r. True) \<and>
   apply_filters ids_only_df all_criteria = Inr ids_only_df"
proof -
  have h: "COL_BOROUGH \<notin> set (columns ids_only_df) \<and> COL_YEAR \<notin> set (columns ids_only_df) \<and>
    COL_MONTH \<notin> set (columns ids_only_df) \<and> COL_HOUR \<notin> set (columns ids_only_df) \<and>
    COL_PERSON_INJURY \<notin> set (columns ids_only_df) \<and>
    COL_PERSON_TYPE \<notin> set (columns ids_only_df) \<and>
    COL_VEHICLE_TYPE \<notin> set (columns ids_only_df) \<and>
    COL_FACTOR \<notin> set (columns ids_only_df) \<and>
    set searched_columns \<inter> set (columns ids_only_df) = {}"
    by code_simp
  have s: "structured_filters ids_only_df all_criteria = ids_only_df"
    by code_simp
  note inst = absent_column_is_noop
    [where df = ids_only_df and a = all_criteria and b = "Some [''BRONX'']"
      and c = "Some [Num 2020]" and col = COL_FACTOR and cols = searched_columns
      and pat = "''speed''" and m = "\<lambda>r. True"]
  from inst h s show ?thesis by simp
qed

subsection \<open>Matching of the categorical criteria\<close>














subsection \<open>Values that a caller should not pass\<close>




subsection \<open>The free-text search on concrete frames\<close>

text \<open>
  For a text without special characters, the search keeps the rows in which every
  searched column that the frame has contains the text.
\<close>

lemma apply_filters_search:
  "search_text a = Some s \<Longrightarrow> str_lower (strip s) \<noteq> [] \<Longrightarrow>
   literal_pattern (str_lower (strip s)) \<Longrightarrow>
   apply_filters df a =
     Inr (select (\<lambda>r. \<forall>col \<in> set searched_columns \<inter> set (columns df).
                         text_hit (str_lower (strip s)) (cell_at r col))
                 (structured_filters df a))"
  by (auto simp: apply_filters_def search_filter_def Let_def search_mask_literal
      columns_structured_filters str_lower_def strip_def)

text \<open>
  C1. The loop over the searched columns starts from the mask that is true everywhere and
  combines the columns with \<open>&=\<close>: a row is kept when every present searched column
  contains the text, not when one of them does. In the frame of five rows, three are in
  Queens and one of these three has a contributing factor that contains \<open>speed\<close>; the
  borough \<open>QUEENS\<close> with the search \<open>speed\<close> keeps no row, since the borough of no row
  contains \<open>speed\<close>.
\<close>

theorem search_queens_speed_keeps_no_row:
  "length (rows queens_speed_df) = 5 \<and>
   length (filter (\<lambda>r. cell_at r COL_BOROUGH = Some (Str ''QUEENS'')) (rows queens_speed_df)) = 3 \<and>
   length (filter (\<lambda>r. cell_at r COL_BOROUGH = Some (Str ''QUEENS'') \<and>
                        text_hit ''speed'' (cell_at r COL_FACTOR)) (rows queens_speed_df)) = 1 \<and>
   apply_filters queens_speed_df
     (no_filters\<lparr>boroughs := Some [''QUEENS''], search_text := Some ''speed''\<rparr>)
   = Inr (queens_speed_df\<lparr>rows := []\<rparr>)"
  by code_simp

text \<open>A missing cell is searched as the string \<open>nan\<close>.\<close>

lemma str_lower_nan: "str_lower ''nan'' = ''nan''"
  by code_simp

lemma missing_cell_hit: "text_hit pat None = has_substring pat ''nan''"
  by (simp add: text_hit_def astype_str_def str_lower_nan)


section \<open>Properties of the aggregation\<close>

lemma summarize_ten_person_rows:
  "summarize nyc_labels ten_person_rows =
     \<lparr>total_crashes = 4, total_persons = 10, total_injuries = 5, total_fatalities = 2\<rparr>"
  by code_simp

lemma set_collision_ids:
  "set (collision_ids df) = {v. Some v \<in> (\<lambda>r. cell_at r COL_COLLISION_ID) ` set (rows df)}"
  by (auto simp: collision_ids_def split: option.splits)

text \<open>
  C3. The crash total of \<open>summarize\<close> is the number of distinct collision identifiers in
  the rows, the person total is the number of rows; on ten person rows of four collisions
  the totals are 4 crashes and 10 persons (and 5 injuries, 2 fatalities).
\<close>

theorem summarize_counts_distinct_collisions:
  "total_crashes (summarize cfg df) =
     card {v. Some v \<in> (\<lambda>r. cell_at r COL_COLLISION_ID) ` set (rows df)} \<and>
   total_persons (summarize cfg df) = length (rows df) \<and>
   summarize nyc_labels ten_person_rows =
     \<lparr>total_crashes = 4, total_persons = 10, total_injuries = 5, total_fatalities = 2\<rparr>"
proof -
  have "total_crashes (summarize cfg df) = card (set (collision_ids df))"
    by (simp add: summarize_def length_remdups_card_conv)
  then show ?thesis
    by (simp add: set_collision_ids summarize_ten_person_rows) (simp add: summarize_def)
qed

end
